theory Spec2Isabelle
  imports Complex_Main
begin

section \<open>Python values, exceptions and the external engine\<close>

text \<open>
  The analyzer of \<^verbatim>\<open>src/core/analyzer.py\<close> builds and returns Python dictionaries whose
  values are strings, floats, booleans, lists and nested dictionaries, and it relays values
  that come from an external package without inspecting them. The values are therefore
  modelled as one datatype. A dictionary is an association list in insertion order, looked
  up with \<open>map_of\<close>. A float is the real number it denotes: the analyzer performs no
  arithmetic and no comparison on floats, it only stores literals and passes values through.
  \<open>PMethod\<close> stands for a bound method found on the class.
\<close>

datatype pyval =
    PNone
  | PBool bool
  | PInt int
  | PFloat real
  | PStr string
  | PList "pyval list"
  | PDict "(string \<times> pyval) list"
  | PMethod string

text \<open>
  The exceptions that the modelled statements can raise. \<open>EngineError\<close> is any exception
  raised inside the external engine.
\<close>

datatype error =
    ImportError
  | KeyError string
  | TypeError
  | AttributeError string
  | EngineError string

text \<open>Python truthiness, as used by \<^verbatim>\<open>if not x\<close> and \<^verbatim>\<open>a if x else b\<close>.\<close>

fun truthy :: "pyval \<Rightarrow> bool" where
  "truthy PNone = False"
| "truthy (PBool b) = b"
| "truthy (PInt i) = (i \<noteq> 0)"
| "truthy (PFloat x) = (x \<noteq> 0)"
| "truthy (PStr s) = (s \<noteq> [])"
| "truthy (PList xs) = (xs \<noteq> [])"
| "truthy (PDict d) = (d \<noteq> [])"
| "truthy (PMethod m) = True"

text \<open>
  \<^verbatim>\<open>result[k]\<close> with a string key: a dictionary raises KeyError on a missing key, every
  other value of the model raises TypeError (not subscriptable, or indices must be integers).
\<close>

fun subscript :: "pyval \<Rightarrow> string \<Rightarrow> error + pyval" where
  "subscript (PDict d) k = (case map_of d k of Some v \<Rightarrow> Inr v | None \<Rightarrow> Inl (KeyError k))"
| "subscript v k = Inl TypeError"

text \<open>\<^verbatim>\<open>result.get(k, default)\<close>: only a dictionary has the method.\<close>

fun dict_get :: "pyval \<Rightarrow> string \<Rightarrow> pyval \<Rightarrow> error + pyval" where
  "dict_get (PDict d) k dflt = Inr (case map_of d k of Some v \<Rightarrow> v | None \<Rightarrow> dflt)"
| "dict_get v k dflt = Inl (AttributeError ''get'')"

text \<open>
  The package \<^verbatim>\<open>repo_intelligence_demo\<close> is not part of the repository; it is a parameter
  of the model. An engine is the method \<^verbatim>\<open>MathematicalEngine().analyze\<close>: given the
  repository URL and the threshold it raises or returns a value. Nothing in the analyzer
  constrains what the engine reads, so the engine also receives the state of the world
  \<open>'w\<close> at the time of the call (clock, network, files). A package may lack the name
  \<^verbatim>\<open>MathematicalEngine\<close>, and calling the class may raise. The environment is the
  installed package, if any. Importing the package is assumed to succeed or to raise
  ImportError.
\<close>

type_synonym 'w engine = "'w \<Rightarrow> string \<Rightarrow> real \<Rightarrow> error + pyval"

datatype 'w package = Package (MathematicalEngine: "(error + 'w engine) option")

type_synonym 'w environment = "'w package option"

section \<open>The class RepositoryAnalyzer\<close>

text \<open>
  An instance is its attribute dictionary. Attribute lookup tries the instance dictionary,
  then the names defined in the class body; a name found in neither raises AttributeError
  (the class defines no \<^verbatim>\<open>__getattr__\<close>). The attributes every object inherits from
  \<^verbatim>\<open>object\<close> are outside the model.
\<close>

type_synonym RepositoryAnalyzer = "(string \<times> pyval) list"

definition class_attributes :: "string list" where
  "class_attributes =
     [''__init__'', ''_check_demo_engine'', ''analyze_repository'', ''get_engine_info'']"

definition getattr :: "RepositoryAnalyzer \<Rightarrow> string \<Rightarrow> error + pyval" where
  "getattr self name =
     (case map_of self name of
        Some v \<Rightarrow> Inr v
      | None \<Rightarrow> if name \<in> set class_attributes then Inr (PMethod name)
                else Inl (AttributeError name))"

text \<open>
  \<^verbatim>\<open>_check_demo_engine\<close>: \<^verbatim>\<open>import repo_intelligence_demo\<close> inside
  \<^verbatim>\<open>try ... except ImportError\<close>.
\<close>

definition check_demo_engine :: "'w environment \<Rightarrow> bool" where
  "check_demo_engine env = (case env of Some p \<Rightarrow> True | None \<Rightarrow> False)"

text \<open>\<^verbatim>\<open>__init__\<close> assigns one attribute.\<close>

definition RepositoryAnalyzer_init :: "'w environment \<Rightarrow> RepositoryAnalyzer" where
  "RepositoryAnalyzer_init env = [(''demo_available'', PBool (check_demo_engine env))]"

text \<open>The dictionary returned when the engine is not available (analyzer.py, lines 31-45).\<close>

definition fallback_result :: "string \<Rightarrow> real \<Rightarrow> pyval" where
  "fallback_result repo_url threshold =
     PDict [(''repository'', PStr repo_url),
            (''classification'', PStr ''DEMO_HEALTHY''),
            (''M_score'', PFloat 0.75),
            (''threshold'', PFloat threshold),
            (''metrics'', PDict [(''H'', PFloat 0.8), (''V'', PFloat 0.7),
                                 (''C'', PFloat 0.6), (''A'', PFloat 0.2)]),
            (''recommendations'', PList [PStr ''Install repo-intelligence-core for full analysis'']),
            (''demo'', PBool False),
            (''demo_mode'', PBool True)]"

text \<open>
  Lines 48-52: \<^verbatim>\<open>from repo_intelligence_demo import MathematicalEngine\<close>, the call of the
  class and \<^verbatim>\<open>engine.analyze(repo_url, threshold)\<close>.
\<close>

definition run_engine :: "'w environment \<Rightarrow> 'w \<Rightarrow> string \<Rightarrow> real \<Rightarrow> error + pyval" where
  "run_engine env w repo_url threshold =
     (case env of
        None \<Rightarrow> Inl ImportError
      | Some p \<Rightarrow>
          (case MathematicalEngine p of
             None \<Rightarrow> Inl ImportError
           | Some (Inl e) \<Rightarrow> Inl e
           | Some (Inr engine) \<Rightarrow> engine w repo_url threshold))"

text \<open>
  Lines 54-62: the dictionary display, its entries evaluated in order, so the first failing
  access decides the exception.
\<close>

definition build_result :: "string \<Rightarrow> real \<Rightarrow> pyval \<Rightarrow> error + pyval" where
  "build_result repo_url threshold result =
     (case subscript result ''meets_threshold'' of
        Inl e \<Rightarrow> Inl e
      | Inr mt \<Rightarrow>
     (case subscript result ''M_score'' of
        Inl e \<Rightarrow> Inl e
      | Inr m \<Rightarrow>
     (case subscript result ''metrics'' of
        Inl e \<Rightarrow> Inl e
      | Inr ms \<Rightarrow>
     (case dict_get result ''recommendations'' (PList []) of
        Inl e \<Rightarrow> Inl e
      | Inr recs \<Rightarrow>
          Inr (PDict [(''repository'', PStr repo_url),
                      (''classification'',
                         PStr (if truthy mt then ''HEALTHY'' else ''NEEDS_ATTENTION'')),
                      (''M_score'', m),
                      (''threshold'', PFloat threshold),
                      (''metrics'', ms),
                      (''recommendations'', recs),
                      (''demo'', PBool True)])))))"

text \<open>
  \<^verbatim>\<open>analyze_repository\<close>. A method receives the instance and could assign to its
  attributes, so the model returns the instance after the call next to the outcome.
\<close>

definition analyze_repository ::
  "RepositoryAnalyzer \<Rightarrow> 'w environment \<Rightarrow> 'w \<Rightarrow> string \<Rightarrow> real \<Rightarrow> (error + pyval) \<times> RepositoryAnalyzer" where
  "analyze_repository self env w repo_url threshold =
     (case getattr self ''demo_available'' of
        Inl e \<Rightarrow> (Inl e, self)
      | Inr d \<Rightarrow>
          if \<not> truthy d then (Inr (fallback_result repo_url threshold), self)
          else (case run_engine env w repo_url threshold of
                  Inl e \<Rightarrow> (Inl e, self)
                | Inr result \<Rightarrow> (build_result repo_url threshold result, self)))"

text \<open>
  \<^verbatim>\<open>get_engine_info\<close>. The engine name holds the two characters U+03C0 and U+2081, written
  here as their UTF-8 bytes.
\<close>

definition get_engine_info :: "RepositoryAnalyzer \<Rightarrow> (error + pyval) \<times> RepositoryAnalyzer" where
  "get_engine_info self =
     (case getattr self ''demo_available'' of
        Inl e \<Rightarrow> (Inl e, self)
      | Inr d \<Rightarrow>
          if truthy d then
            (Inr (PDict [(''engine'', PStr (''Proprietary ''
                             @ [CHR 0xCF, CHR 0x80, CHR 0xE2, CHR 0x82, CHR 0x81]
                             @ '' Mathematical Engine'')),
                         (''capabilities'', PList [PStr ''Full repository analysis'',
                             PStr ([CHR 0xCF, CHR 0x80, CHR 0xE2, CHR 0x82, CHR 0x81] @ '' formula''),
                             PStr ''Custom thresholds'']),
                         (''version'', PStr ''1.0.0'')]), self)
          else
            (Inr (PDict [(''engine'', PStr ''Demo Mode''),
                         (''capabilities'', PList [PStr ''Basic structure analysis'',
                             PStr ''Demo metrics'']),
                         (''message'', PStr ''Install repo-intelligence-core for full capabilities'')]),
             self))"

text \<open>Reading a key of a returned mapping; \<open>None\<close> when nothing was returned or the key is absent.\<close>

definition result_field :: "error + pyval \<Rightarrow> string \<Rightarrow> pyval option" where
  "result_field r k = (case r of Inr (PDict d) \<Rightarrow> map_of d k | _ \<Rightarrow> None)"

text \<open>A returned mapping with one key removed, to compare two results up to that key.\<close>

definition without_field :: "string \<Rightarrow> error + pyval \<Rightarrow> error + pyval" where
  "without_field k r =
     (case r of Inr (PDict d) \<Rightarrow> Inr (PDict (filter (\<lambda>kv. fst kv \<noteq> k) d)) | _ \<Rightarrow> r)"

text \<open>
  The flag the classification is taken from: the truth value of
  \<^verbatim>\<open>result["meets_threshold"]\<close> in what the engine returned for this call.
\<close>

definition meets_threshold_flag :: "'w environment \<Rightarrow> 'w \<Rightarrow> string \<Rightarrow> real \<Rightarrow> bool" where
  "meets_threshold_flag env w repo_url threshold =
     (case run_engine env w repo_url threshold of
        Inl e \<Rightarrow> False
      | Inr result \<Rightarrow>
          (case subscript result ''meets_threshold'' of Inl e \<Rightarrow> False | Inr mt \<Rightarrow> truthy mt))"

subsection \<open>Sequences of calls on one analyzer\<close>

text \<open>
  A caller holds one analyzer and calls its two public methods in any order, each call
  in the environment and world of its moment. An exception of one call is caught by the
  caller (as the examples and the command line do), so the sequence goes on.
\<close>

datatype 'w call = AnalyzeRepository "'w environment" 'w string real | GetEngineInfo

fun run_call :: "RepositoryAnalyzer \<Rightarrow> 'w call \<Rightarrow> (error + pyval) \<times> RepositoryAnalyzer" where
  "run_call self (AnalyzeRepository env w repo_url threshold) =
     analyze_repository self env w repo_url threshold"
| "run_call self GetEngineInfo = get_engine_info self"

fun run_calls :: "RepositoryAnalyzer \<Rightarrow> 'w call list \<Rightarrow> (error + pyval) list \<times> RepositoryAnalyzer" where
  "run_calls self [] = ([], self)"
| "run_calls self (c # cs) =
     (case run_call self c of
        (r, self') \<Rightarrow> (case run_calls self' cs of (rs, self'') \<Rightarrow> (r # rs, self'')))"

subsection \<open>The callers that read \<^verbatim>\<open>proprietary_available\<close>\<close>

text \<open>
  \<^verbatim>\<open>health_check\<close> of \<^verbatim>\<open>src/api/main.py\<close>: a fresh analyzer, then a dictionary display
  whose second entry reads the attribute.
\<close>

definition health_check :: "'w environment \<Rightarrow> error + pyval" where
  "health_check env =
     (let analyzer = RepositoryAnalyzer_init env in
      case getattr analyzer ''proprietary_available'' of
        Inl e \<Rightarrow> Inl e
      | Inr pa \<Rightarrow> Inr (PDict [(''status'', PStr ''healthy''),
                               (''proprietary_engine_available'', pa),
                               (''version'', PStr ''1.0.0'')]))"

text \<open>
  The \<^verbatim>\<open>try\<close> block of the command \<^verbatim>\<open>analyze\<close> in \<^verbatim>\<open>cli/analyze.py\<close>, lines 61-72:
  construct the analyzer, ask for the engine information, read the attribute (the branch on
  it only prints), analyze. The value is what line 72 binds to \<^verbatim>\<open>result\<close>; the printing
  that follows is not modelled.
\<close>

definition analyze_command :: "'w environment \<Rightarrow> 'w \<Rightarrow> string \<Rightarrow> real \<Rightarrow> error + pyval" where
  "analyze_command env w repo_url threshold =
     (let analyzer = RepositoryAnalyzer_init env in
      case get_engine_info analyzer of
        (Inl e, analyzer') \<Rightarrow> Inl e
      | (Inr engine_info, analyzer') \<Rightarrow>
          (case getattr analyzer' ''proprietary_available'' of
             Inl e \<Rightarrow> Inl e
           | Inr pa \<Rightarrow> fst (analyze_repository analyzer' env w repo_url threshold)))"

text \<open>
  The handler \<^verbatim>\<open>except Exception\<close> of the command prints the error and calls
  \<^verbatim>\<open>sys.exit(1)\<close>. \<open>None\<close>: no exception so far, the command goes on to print.
\<close>

definition analyze_command_exit :: "error + pyval \<Rightarrow> nat option" where
  "analyze_command_exit r = (case r of Inl e \<Rightarrow> Some 1 | Inr v \<Rightarrow> None)"

subsection \<open>Observations on the engine and on results\<close>

text \<open>
  What the engine returned under a key for this call, if it returned a mapping with that key,
  and the list the analyzer takes as recommendations
  (\<^verbatim>\<open>result.get("recommendations", [])\<close>).
\<close>

definition engine_field ::
  "'w environment \<Rightarrow> 'w \<Rightarrow> string \<Rightarrow> real \<Rightarrow> string \<Rightarrow> pyval option" where
  "engine_field env w repo_url threshold k =
     (case run_engine env w repo_url threshold of
        Inl e \<Rightarrow> None
      | Inr result \<Rightarrow> (case subscript result k of Inl e \<Rightarrow> None | Inr v \<Rightarrow> Some v))"

definition engine_recommendations :: "'w environment \<Rightarrow> 'w \<Rightarrow> string \<Rightarrow> real \<Rightarrow> pyval" where
  "engine_recommendations env w repo_url threshold =
     (case run_engine env w repo_url threshold of
        Inl e \<Rightarrow> PList []
      | Inr result \<Rightarrow>
          (case dict_get result ''recommendations'' (PList []) of
             Inl e \<Rightarrow> PList []
           | Inr recs \<Rightarrow> recs))"

text \<open>A float between 0 and 1, and a metrics mapping whose four entries are such floats.\<close>

definition unit_float :: "pyval option \<Rightarrow> bool" where
  "unit_float v = (case v of Some (PFloat x) \<Rightarrow> 0 \<le> x \<and> x \<le> 1 | _ \<Rightarrow> False)"

definition unit_metrics :: "pyval option \<Rightarrow> bool" where
  "unit_metrics ms =
     (case ms of
        Some (PDict d) \<Rightarrow> unit_float (map_of d ''H'') \<and> unit_float (map_of d ''V'')
                          \<and> unit_float (map_of d ''C'') \<and> unit_float (map_of d ''A'')
      | _ \<Rightarrow> False)"

subsection \<open>The engine as the spec describes it\<close>

text \<open>
  Modelled from the spec: the package \<^verbatim>\<open>repo_intelligence_demo\<close> with its class
  \<^verbatim>\<open>MathematicalEngine\<close> and the method \<^verbatim>\<open>analyze\<close> is missing from the repository.
  Section 3 of the spec says of the values it computes: every metric is a scalar in
  [0.0, 1.0], always clamped into range, and the weights sum to 1.0 so that the composite
  score M is in [0, 1]. This is that contract for what the engine returns at one call: if it
  returns, the value under \<open>M_score\<close> is a float in the unit interval and the value under
  \<open>metrics\<close> is a mapping whose entries H, V, C and A are such floats.
\<close>

definition engine_values_in_range :: "'w environment \<Rightarrow> 'w \<Rightarrow> string \<Rightarrow> real \<Rightarrow> bool" where
  "engine_values_in_range env w repo_url threshold =
     (case run_engine env w repo_url threshold of
        Inl e \<Rightarrow> True
      | Inr result \<Rightarrow>
          unit_float (engine_field env w repo_url threshold ''M_score'')
          \<and> unit_metrics (engine_field env w repo_url threshold ''metrics''))"

text \<open>
  Modelled from the spec: the same missing method \<^verbatim>\<open>MathematicalEngine().analyze\<close>.
  Sections 5 and 8 of the spec say that the engine is pure computation, deterministic given
  identical input, with no hidden dependency on the time of the call and no read of the
  system clock. This is that contract: what the engine gives for a URL and a threshold,
  a value or an exception, is the same in every state of the world.
\<close>

definition engine_ignores_world :: "'w environment \<Rightarrow> bool" where
  "engine_ignores_world env =
     (\<forall>w1 w2 repo_url threshold.
        run_engine env w1 repo_url threshold = run_engine env w2 repo_url threshold)"

subsection \<open>A sample engine\<close>

text \<open>
  A stand-in for the external package, to run the engine path on concrete input. It returns
  the values that the endpoint \<^verbatim>\<open>/demo/analyze\<close> shows as an example of an analysis.
\<close>

definition sample_engine :: "'w engine" where
  "sample_engine w repo_url threshold =
     Inr (PDict [(''meets_threshold'', PBool True),
                 (''M_score'', PFloat 0.782),
                 (''metrics'', PDict [(''H'', PFloat 0.85), (''V'', PFloat 0.72),
                                      (''C'', PFloat 0.68), (''A'', PFloat 0.15)]),
                 (''recommendations'', PList [PStr ''Consider increasing PR review coverage'',
                                              PStr ''Monitor for long-lived feature branches''])])"

definition sample_package :: "'w package" where
  "sample_package = Package (Some (Inr sample_engine))"

section \<open>Basic facts\<close>

lemma getattr_init_demo_available:
  "getattr (RepositoryAnalyzer_init env) ''demo_available'' = Inr (PBool (check_demo_engine env))"
  by (simp add: getattr_def RepositoryAnalyzer_init_def)

lemma getattr_init_proprietary_available:
  "getattr (RepositoryAnalyzer_init env) ''proprietary_available'' =
     Inl (AttributeError ''proprietary_available'')"
  by (simp add: getattr_def RepositoryAnalyzer_init_def class_attributes_def)

lemma analyze_repository_unavailable:
  "fst (analyze_repository (RepositoryAnalyzer_init None) env w u t) = Inr (fallback_result u t)"
  by (simp add: analyze_repository_def getattr_init_demo_available check_demo_engine_def)

lemma analyze_repository_available:
  "fst (analyze_repository (RepositoryAnalyzer_init (Some p)) env w u t) =
     (case run_engine env w u t of Inl e \<Rightarrow> Inl e | Inr r \<Rightarrow> build_result u t r)"
  by (simp add: analyze_repository_def getattr_init_demo_available check_demo_engine_def
           split: sum.splits)

lemma analyze_available_Inr:
  assumes "fst (analyze_repository (RepositoryAnalyzer_init (Some p)) env w u t) = Inr res"
  shows "\<exists>r. run_engine env w u t = Inr r \<and> build_result u t r = Inr res"
  using assms by (simp add: analyze_repository_available split: sum.splits)

lemma build_result_Inr:
  "build_result u t r = Inr res \<Longrightarrow>
     \<exists>mt m ms recs. subscript r ''meets_threshold'' = Inr mt \<and> subscript r ''M_score'' = Inr m
       \<and> subscript r ''metrics'' = Inr ms \<and> dict_get r ''recommendations'' (PList []) = Inr recs
       \<and> res = PDict [(''repository'', PStr u),
                      (''classification'', PStr (if truthy mt then ''HEALTHY'' else ''NEEDS_ATTENTION'')),
                      (''M_score'', m), (''threshold'', PFloat t), (''metrics'', ms),
                      (''recommendations'', recs), (''demo'', PBool True)]"
  by (auto simp: build_result_def split: sum.splits)

subsection \<open>The analyzer is returned as it was\<close>

lemma analyze_repository_state: "snd (analyze_repository self env w u t) = self"
  by (simp add: analyze_repository_def split: sum.splits)

lemma get_engine_info_state: "snd (get_engine_info self) = self"
  by (simp add: get_engine_info_def split: sum.splits)

lemma run_call_state: "snd (run_call self c) = self"
  by (cases c) (simp_all add: analyze_repository_state get_engine_info_state)

lemma run_calls_state: "snd (run_calls self cs) = self"
proof (induction cs arbitrary: self)
  case Nil
  show ?case by simp
next
  case (Cons c cs)
  obtain r self' where step: "run_call self c = (r, self')"
    by (cases "run_call self c")
  have "self' = self"
    using run_call_state [of self c] step by simp
  with step Cons.IH [of self] show ?case
    by (auto split: prod.splits)
qed

subsection \<open>Runs with the sample engines\<close>

lemma run_engine_sample: "run_engine (Some sample_package) w u t = sample_engine w u t"
  by (simp add: run_engine_def sample_package_def)

lemma analyze_sample:
  "fst (analyze_repository (RepositoryAnalyzer_init (Some p)) (Some sample_package) w u t) =
     Inr (PDict [(''repository'', PStr u),
                 (''classification'', PStr ''HEALTHY''),
                 (''M_score'', PFloat 0.782),
                 (''threshold'', PFloat t),
                 (''metrics'', PDict [(''H'', PFloat 0.85), (''V'', PFloat 0.72),
                                      (''C'', PFloat 0.68), (''A'', PFloat 0.15)]),
                 (''recommendations'', PList [PStr ''Consider increasing PR review coverage'',
                                              PStr ''Monitor for long-lived feature branches'']),
                 (''demo'', PBool True)])"
  by (simp add: analyze_repository_available run_engine_sample sample_engine_def build_result_def)

lemma meets_threshold_flag_sample: "meets_threshold_flag (Some sample_package) w u t"
  by (simp add: meets_threshold_flag_def run_engine_sample sample_engine_def)

lemma engine_recommendations_sample:
  "engine_recommendations (Some sample_package) w u t =
     PList [PStr ''Consider increasing PR review coverage'',
            PStr ''Monitor for long-lived feature branches'']"
  by (simp add: engine_recommendations_def run_engine_sample sample_engine_def)

lemma engine_values_in_range_sample: "engine_values_in_range (Some sample_package) w u t"
  by (simp add: engine_values_in_range_def engine_field_def run_engine_sample sample_engine_def
        unit_float_def unit_metrics_def)

lemma engine_ignores_world_sample: "engine_ignores_world (Some sample_package)"
  by (simp add: engine_ignores_world_def run_engine_sample sample_engine_def)

subsection \<open>What the engine path relays\<close>

lemma score_and_metrics_relayed:
  assumes "fst (analyze_repository (RepositoryAnalyzer_init (Some p)) env w u t) = Inr res"
  shows "result_field (Inr res) ''M_score'' = engine_field env w u t ''M_score''"
    and "result_field (Inr res) ''metrics'' = engine_field env w u t ''metrics''"
proof -
  from analyze_available_Inr [OF assms]
  obtain r where r: "run_engine env w u t = Inr r" "build_result u t r = Inr res"
    by blast
  from build_result_Inr [OF r(2)] r(1)
  show "result_field (Inr res) ''M_score'' = engine_field env w u t ''M_score''"
    by (auto simp: result_field_def engine_field_def)
  from build_result_Inr [OF r(2)] r(1)
  show "result_field (Inr res) ''metrics'' = engine_field env w u t ''metrics''"
    by (auto simp: result_field_def engine_field_def)
qed

lemma engine_returned:
  assumes "fst (analyze_repository (RepositoryAnalyzer_init (Some p)) env w u t) = Inr res"
  shows "\<exists>r. run_engine env w u t = Inr r"
  using analyze_available_Inr [OF assms] by blast

section \<open>Classification\<close>

text \<open>
  Claim C1, as amended. The analyzer never compares the score with the threshold. When the
  engine is unavailable the classification is DEMO_HEALTHY for every URL and threshold.
  When the engine is available and a result is returned, the classification is HEALTHY if
  the value the engine returned under \<open>meets_threshold\<close> is truthy, and NEEDS_ATTENTION
  otherwise.
\<close>

theorem classification_by_engine_flag:
  "result_field (fst (analyze_repository (RepositoryAnalyzer_init (None :: 'w environment))
        (env :: 'w environment) w u t)) ''classification''
     = Some (PStr ''DEMO_HEALTHY'')
   \<and> (fst (analyze_repository (RepositoryAnalyzer_init (Some (p :: 'w package))) env w u t) = Inr res \<longrightarrow>
        result_field (Inr res) ''classification'' =
          Some (PStr (if meets_threshold_flag env w u t then ''HEALTHY'' else ''NEEDS_ATTENTION'')))"
proof (intro conjI impI)
  show "result_field (fst (analyze_repository (RepositoryAnalyzer_init (None :: 'w environment))
        env w u t)) ''classification'' = Some (PStr ''DEMO_HEALTHY'')"
    by (simp add: analyze_repository_unavailable fallback_result_def result_field_def)
next
  assume "fst (analyze_repository (RepositoryAnalyzer_init (Some p)) env w u t) = Inr res"
  from analyze_available_Inr [OF this]
  obtain r where r: "run_engine env w u t = Inr r" "build_result u t r = Inr res"
    by blast
  from build_result_Inr [OF r(2)] r(1)
  show "result_field (Inr res) ''classification'' =
          Some (PStr (if meets_threshold_flag env w u t then ''HEALTHY'' else ''NEEDS_ATTENTION''))"
    by (auto simp: result_field_def meets_threshold_flag_def)
qed

text \<open>The engine path on the sample engine: a result is returned, the flag is set, HEALTHY.\<close>

theorem classification_by_engine_flag_witness:
  "fst (analyze_repository (RepositoryAnalyzer_init (Some (sample_package :: unit package)))
          (Some sample_package) () ''https://github.com/example/demo'' 0.7)
     = Inr (PDict [(''repository'', PStr ''https://github.com/example/demo''),
                 (''classification'', PStr ''HEALTHY''),
                 (''M_score'', PFloat 0.782),
                 (''threshold'', PFloat 0.7),
                 (''metrics'', PDict [(''H'', PFloat 0.85), (''V'', PFloat 0.72),
                                      (''C'', PFloat 0.68), (''A'', PFloat 0.15)]),
                 (''recommendations'', PList [PStr ''Consider increasing PR review coverage'',
                                              PStr ''Monitor for long-lived feature branches'']),
                 (''demo'', PBool True)])
   \<and> meets_threshold_flag (Some (sample_package :: unit package)) () ''https://github.com/example/demo'' 0.7
   \<and> result_field (fst (analyze_repository (RepositoryAnalyzer_init (Some (sample_package :: unit package)))
          (Some sample_package) () ''https://github.com/example/demo'' 0.7)) ''classification''
       = Some (PStr ''HEALTHY'')"
  using classification_by_engine_flag [where p = "sample_package :: unit package"
       and env = "Some sample_package" and w = "()" and u = "''https://github.com/example/demo''"
       and t = "0.7"]
  by (simp add: analyze_sample meets_threshold_flag_sample result_field_def)

text \<open>
  Claim C1 as stated fails without the engine: at threshold 0.7 the score 0.75 reaches the
  threshold and the classification is not HEALTHY; at threshold 0.9 the score is below the
  threshold and the classification is not NEEDS_ATTENTION.
\<close>

theorem classification_by_score_counterexample:
  "result_field (fst (analyze_repository (RepositoryAnalyzer_init (None :: unit environment)) None ()
       ''https://github.com/microsoft/vscode'' 0.7)) ''M_score'' = Some (PFloat 0.75)
   \<and> (0.7 :: real) \<le> 0.75
   \<and> result_field (fst (analyze_repository (RepositoryAnalyzer_init (None :: unit environment)) None ()
       ''https://github.com/microsoft/vscode'' 0.7)) ''classification'' \<noteq> Some (PStr ''HEALTHY'')
   \<and> result_field (fst (analyze_repository (RepositoryAnalyzer_init (None :: unit environment)) None ()
       ''https://github.com/microsoft/vscode'' 0.9)) ''M_score'' = Some (PFloat 0.75)
   \<and> \<not> (0.9 :: real) \<le> 0.75
   \<and> result_field (fst (analyze_repository (RepositoryAnalyzer_init (None :: unit environment)) None ()
       ''https://github.com/microsoft/vscode'' 0.9)) ''classification'' \<noteq> Some (PStr ''NEEDS_ATTENTION'')"
  by (simp add: analyze_repository_unavailable fallback_result_def result_field_def)

text \<open>
  Claim C2, as amended. The classification of a returned result is one of three strings:
  DEMO_HEALTHY when the analyzer was constructed without the engine package, and HEALTHY or
  NEEDS_ATTENTION when it was constructed with it.
\<close>

theorem classification_three_values:
  "fst (analyze_repository (RepositoryAnalyzer_init (env0 :: 'w environment))
        (env :: 'w environment) w u t) = Inr res \<Longrightarrow>
     (env0 = None \<longrightarrow> result_field (Inr res) ''classification'' = Some (PStr ''DEMO_HEALTHY''))
   \<and> (env0 \<noteq> None \<longrightarrow> result_field (Inr res) ''classification''
          \<in> {Some (PStr ''HEALTHY''), Some (PStr ''NEEDS_ATTENTION'')})"
proof (cases env0)
  case None
  assume "fst (analyze_repository (RepositoryAnalyzer_init env0) env w u t) = Inr res"
  with None show ?thesis
    by (auto simp: analyze_repository_unavailable fallback_result_def result_field_def)
next
  case (Some p)
  assume "fst (analyze_repository (RepositoryAnalyzer_init env0) env w u t) = Inr res"
  with Some have "fst (analyze_repository (RepositoryAnalyzer_init (Some p)) env w u t) = Inr res"
    by simp
  from analyze_available_Inr [OF this]
  obtain r where r: "build_result u t r = Inr res"
    by blast
  from build_result_Inr [OF r] Some show ?thesis
    by (auto simp: result_field_def split: if_splits)
qed

text \<open>Both cases at a concrete call: without the package, and with the sample package.\<close>

theorem classification_three_values_witness:
  "result_field (fst (analyze_repository (RepositoryAnalyzer_init (None :: unit environment))
      (None :: unit environment) () ''https://github.com/google/go'' 0.7)) ''classification''
     = Some (PStr ''DEMO_HEALTHY'')
   \<and> result_field (fst (analyze_repository (RepositoryAnalyzer_init (Some (sample_package :: unit package)))
      (Some sample_package) () ''https://github.com/google/go'' 0.7)) ''classification''
     \<in> {Some (PStr ''HEALTHY''), Some (PStr ''NEEDS_ATTENTION'')}"
  using classification_three_values [where ?env0.0 = "None :: unit environment"
          and env = "None :: unit environment" and w = "()" and u = "''https://github.com/google/go''"
          and t = "0.7", OF analyze_repository_unavailable]
        classification_three_values [where ?env0.0 = "Some (sample_package :: unit package)"
          and env = "Some sample_package" and w = "()" and u = "''https://github.com/google/go''"
          and t = "0.7", OF analyze_sample]
  by (simp add: analyze_repository_unavailable analyze_sample)

text \<open>
  Claim C2 as stated fails without the engine: the classification returned is neither
  HEALTHY nor NEEDS_ATTENTION.
\<close>

theorem classification_two_values_counterexample:
  "result_field (fst (analyze_repository (RepositoryAnalyzer_init (None :: unit environment)) None ()
       ''https://github.com/facebook/react'' 0.7)) ''classification''
     \<notin> {Some (PStr ''HEALTHY''), Some (PStr ''NEEDS_ATTENTION'')}"
  by (simp add: analyze_repository_unavailable fallback_result_def result_field_def)

section \<open>The confidence flag\<close>

text \<open>
  Claim C3, as amended. Every returned result has the boolean key \<open>demo\<close>: False without
  the engine, True with it. The key \<open>demo_mode\<close> is present, with value True, only in the
  result returned without the engine; a result of the engine path has no such key.
\<close>

theorem confidence_keys:
  "fst (analyze_repository (RepositoryAnalyzer_init (env0 :: 'w environment))
        (env :: 'w environment) w u t) = Inr res \<Longrightarrow>
     result_field (Inr res) ''demo'' = Some (PBool (env0 \<noteq> None))
   \<and> result_field (Inr res) ''demo_mode'' = (if env0 = None then Some (PBool True) else None)"
proof (cases env0)
  case None
  assume "fst (analyze_repository (RepositoryAnalyzer_init env0) env w u t) = Inr res"
  with None show ?thesis
    by (auto simp: analyze_repository_unavailable fallback_result_def result_field_def)
next
  case (Some p)
  assume "fst (analyze_repository (RepositoryAnalyzer_init env0) env w u t) = Inr res"
  with Some have "fst (analyze_repository (RepositoryAnalyzer_init (Some p)) env w u t) = Inr res"
    by simp
  from analyze_available_Inr [OF this]
  obtain r where r: "build_result u t r = Inr res"
    by blast
  from build_result_Inr [OF r] Some show ?thesis
    by (auto simp: result_field_def)
qed

text \<open>The two keys with the sample package, and without a package.\<close>

theorem confidence_keys_witness:
  "result_field (fst (analyze_repository (RepositoryAnalyzer_init (Some (sample_package :: unit package)))
      (Some sample_package) () ''https://github.com/rust-lang/rust'' 0.7)) ''demo'' = Some (PBool True)
   \<and> result_field (fst (analyze_repository (RepositoryAnalyzer_init (Some (sample_package :: unit package)))
      (Some sample_package) () ''https://github.com/rust-lang/rust'' 0.7)) ''demo_mode'' = None
   \<and> result_field (fst (analyze_repository (RepositoryAnalyzer_init (None :: unit environment))
      (Some sample_package) () ''https://github.com/rust-lang/rust'' 0.7)) ''demo'' = Some (PBool False)
   \<and> result_field (fst (analyze_repository (RepositoryAnalyzer_init (None :: unit environment))
      (Some sample_package) () ''https://github.com/rust-lang/rust'' 0.7)) ''demo_mode'' = Some (PBool True)"
  using confidence_keys [where ?env0.0 = "Some (sample_package :: unit package)"
          and env = "Some sample_package" and w = "()" and u = "''https://github.com/rust-lang/rust''"
          and t = "0.7", OF analyze_sample]
        confidence_keys [where ?env0.0 = "None :: unit environment"
          and env = "Some sample_package" and w = "()" and u = "''https://github.com/rust-lang/rust''"
          and t = "0.7", OF analyze_repository_unavailable]
  by (simp add: analyze_repository_unavailable analyze_sample)

text \<open>
  Claim C3 as stated fails on the engine path: the call returns a result, and the result
  has no key \<open>demo_mode\<close>.
\<close>

theorem demo_mode_key_counterexample:
  "fst (analyze_repository (RepositoryAnalyzer_init (Some (sample_package :: unit package)))
          (Some sample_package) () ''https://github.com/example/demo'' 0.7)
     = Inr (PDict [(''repository'', PStr ''https://github.com/example/demo''),
                 (''classification'', PStr ''HEALTHY''),
                 (''M_score'', PFloat 0.782),
                 (''threshold'', PFloat 0.7),
                 (''metrics'', PDict [(''H'', PFloat 0.85), (''V'', PFloat 0.72),
                                      (''C'', PFloat 0.68), (''A'', PFloat 0.15)]),
                 (''recommendations'', PList [PStr ''Consider increasing PR review coverage'',
                                              PStr ''Monitor for long-lived feature branches'']),
                 (''demo'', PBool True)])
   \<and> result_field (fst (analyze_repository (RepositoryAnalyzer_init (Some (sample_package :: unit package)))
          (Some sample_package) () ''https://github.com/example/demo'' 0.7)) ''demo_mode'' = None"
  by (simp add: analyze_sample result_field_def)

section \<open>The degraded result\<close>

text \<open>
  Claim C4. When the engine package is not available (the constructor found no package, so
  \<open>demo_available\<close> is false), \<open>analyze_repository\<close> returns a fixed dictionary whatever
  the repository is: classification DEMO_HEALTHY, M_score 0.75, metrics H 0.8, V 0.7,
  C 0.6, A 0.2, the single recommendation to install the full package, and the threshold
  echoed. Two results for two URLs and one threshold, taken in any environment and at any
  time, are equal once the key \<open>repository\<close> is removed.
\<close>

theorem unavailable_result_constant:
  "fst (analyze_repository (RepositoryAnalyzer_init (None :: 'w environment))
        (env :: 'w environment) w u t) =
     Inr (PDict [(''repository'', PStr u),
                 (''classification'', PStr ''DEMO_HEALTHY''),
                 (''M_score'', PFloat 0.75),
                 (''threshold'', PFloat t),
                 (''metrics'', PDict [(''H'', PFloat 0.8), (''V'', PFloat 0.7),
                                      (''C'', PFloat 0.6), (''A'', PFloat 0.2)]),
                 (''recommendations'',
                    PList [PStr ''Install repo-intelligence-core for full analysis'']),
                 (''demo'', PBool False),
                 (''demo_mode'', PBool True)])
   \<and> without_field ''repository''
       (fst (analyze_repository (RepositoryAnalyzer_init (None :: 'w environment))
              (env1 :: 'w environment) w1 u1 t)) =
     without_field ''repository''
       (fst (analyze_repository (RepositoryAnalyzer_init (None :: 'w environment))
              (env2 :: 'w environment) w2 u2 t))"
  by (simp add: analyze_repository_unavailable fallback_result_def without_field_def)

section \<open>Score and metrics\<close>

text \<open>
  Claim C5. For every call that returns a result, the returned M_score lies in [0.0, 1.0]
  and each of the four returned metrics H, V, C, A lies in [0.0, 1.0]. Without the engine
  these are the fixed values 0.75 and 0.8, 0.7, 0.6, 0.2. With the engine they are the
  values the engine returned, relayed unchanged, and the engine is taken to keep the range
  that the spec gives its values.
\<close>

theorem score_and_metrics_in_unit_interval:
  "engine_values_in_range (env :: 'w environment) w u t \<Longrightarrow>
   fst (analyze_repository (RepositoryAnalyzer_init (env0 :: 'w environment)) env w u t) = Inr res \<Longrightarrow>
     unit_float (result_field (Inr res) ''M_score'')
   \<and> unit_metrics (result_field (Inr res) ''metrics'')"
proof (cases env0)
  case None
  assume "fst (analyze_repository (RepositoryAnalyzer_init env0) env w u t) = Inr res"
  with None have "res = fallback_result u t"
    by (simp add: analyze_repository_unavailable)
  then show ?thesis
    by (simp add: fallback_result_def result_field_def unit_float_def unit_metrics_def)
next
  case (Some p)
  assume range: "engine_values_in_range env w u t"
  assume "fst (analyze_repository (RepositoryAnalyzer_init env0) env w u t) = Inr res"
  with Some have run: "fst (analyze_repository (RepositoryAnalyzer_init (Some p)) env w u t) = Inr res"
    by simp
  from engine_returned [OF run] obtain r where "run_engine env w u t = Inr r"
    by blast
  with range have "unit_float (engine_field env w u t ''M_score'')"
    and "unit_metrics (engine_field env w u t ''metrics'')"
    by (simp_all add: engine_values_in_range_def)
  with score_and_metrics_relayed [OF run] show ?thesis
    by simp
qed

text \<open>Both paths at a concrete call: without the package, and with the sample package.\<close>

theorem score_and_metrics_in_unit_interval_witness:
  "engine_values_in_range (Some (sample_package :: unit package)) () ''https://github.com/octocat/Hello-World'' 0.5
   \<and> unit_float (result_field (fst (analyze_repository
        (RepositoryAnalyzer_init (Some (sample_package :: unit package)))
        (Some sample_package) () ''https://github.com/octocat/Hello-World'' 0.5)) ''M_score'')
   \<and> unit_metrics (result_field (fst (analyze_repository
        (RepositoryAnalyzer_init (Some (sample_package :: unit package)))
        (Some sample_package) () ''https://github.com/octocat/Hello-World'' 0.5)) ''metrics'')
   \<and> unit_float (result_field (fst (analyze_repository
        (RepositoryAnalyzer_init (None :: unit environment))
        (Some sample_package) () ''https://github.com/octocat/Hello-World'' 0.5)) ''M_score'')
   \<and> unit_metrics (result_field (fst (analyze_repository
        (RepositoryAnalyzer_init (None :: unit environment))
        (Some sample_package) () ''https://github.com/octocat/Hello-World'' 0.5)) ''metrics'')"
  using score_and_metrics_in_unit_interval [where ?env0.0 = "Some (sample_package :: unit package)"
          and env = "Some sample_package" and w = "()"
          and u = "''https://github.com/octocat/Hello-World''" and t = "0.5",
          OF engine_values_in_range_sample analyze_sample]
        score_and_metrics_in_unit_interval [where ?env0.0 = "None :: unit environment"
          and env = "Some sample_package" and w = "()"
          and u = "''https://github.com/octocat/Hello-World''" and t = "0.5",
          OF engine_values_in_range_sample analyze_repository_unavailable]
  by (simp add: engine_values_in_range_sample analyze_sample analyze_repository_unavailable)

section \<open>Determinism\<close>

text \<open>
  Claim C6. \<open>analyze_repository\<close> is deterministic: a second invocation with the same
  arguments on the same analyzer, at another time and after any calls made on the analyzer
  in between, returns the same outcome as the first and leaves the same analyzer. The
  analyzer reads no clock and keeps no state. Without the engine this holds whatever the
  installed package does; with the engine, the engine is taken to be independent of the
  state of the world, as the spec says it is.
\<close>

theorem analyze_repository_deterministic:
  "analyze_repository (snd (run_calls (RepositoryAnalyzer_init (None :: 'w environment)) cs))
       (env :: 'w environment) w2 u t =
     analyze_repository (RepositoryAnalyzer_init (None :: 'w environment)) env w1 u t
   \<and> (engine_ignores_world env \<longrightarrow>
        analyze_repository (snd (run_calls self cs)) env w2 u t =
          analyze_repository self env w1 u t)"
proof (intro conjI impI)
  show "analyze_repository (snd (run_calls (RepositoryAnalyzer_init (None :: 'w environment)) cs))
       env w2 u t =
     analyze_repository (RepositoryAnalyzer_init (None :: 'w environment)) env w1 u t"
    by (simp add: run_calls_state analyze_repository_def getattr_init_demo_available
          check_demo_engine_def)
next
  assume "engine_ignores_world env"
  then have "run_engine env w2 u t = run_engine env w1 u t"
    by (simp add: engine_ignores_world_def)
  then show "analyze_repository (snd (run_calls self cs)) env w2 u t =
          analyze_repository self env w1 u t"
    by (auto simp: run_calls_state analyze_repository_def split: sum.splits)
qed

text \<open>
  With the sample package: a call at time 2, then the engine information and an analysis
  of another repository, then the first call again at time 3.
\<close>

theorem analyze_repository_deterministic_witness:
  "engine_ignores_world (Some (sample_package :: nat package))
   \<and> analyze_repository
        (snd (run_calls (RepositoryAnalyzer_init (Some (sample_package :: nat package)))
           [GetEngineInfo,
            AnalyzeRepository (Some sample_package) (5 :: nat) ''https://github.com/facebook/react'' 0.9]))
        (Some sample_package) (3 :: nat) ''https://github.com/microsoft/vscode'' 0.7
     = analyze_repository (RepositoryAnalyzer_init (Some (sample_package :: nat package)))
        (Some sample_package) (2 :: nat) ''https://github.com/microsoft/vscode'' 0.7"
  using analyze_repository_deterministic [where env = "Some (sample_package :: nat package)"
          and ?w1.0 = "2 :: nat" and ?w2.0 = "3 :: nat"
          and u = "''https://github.com/microsoft/vscode''" and t = "0.7"
          and self = "RepositoryAnalyzer_init (Some (sample_package :: nat package))"
          and cs = "[GetEngineInfo,
            AnalyzeRepository (Some sample_package) (5 :: nat) ''https://github.com/facebook/react'' 0.9]",
          THEN conjunct2, rule_format, OF engine_ignores_world_sample]
  by (simp add: engine_ignores_world_sample)

section \<open>The threshold\<close>

text \<open>
  Claim C7, as amended. The analyzer does not check the threshold. Without the engine, every
  threshold, inside the range (0, 1] or not, yields the fixed result with that threshold
  echoed. With the engine, the threshold is passed to the engine as it is; the call raises
  only where the engine raises or its result cannot be read, and a returned result echoes
  the threshold.
\<close>

theorem threshold_not_checked:
  "fst (analyze_repository (RepositoryAnalyzer_init (None :: 'w environment))
        (env :: 'w environment) w u t) = Inr (fallback_result u t)
   \<and> result_field (fst (analyze_repository (RepositoryAnalyzer_init (None :: 'w environment))
        env w u t)) ''threshold'' = Some (PFloat t)
   \<and> fst (analyze_repository (RepositoryAnalyzer_init (Some (p :: 'w package))) env w u t) =
       (case run_engine env w u t of Inl e \<Rightarrow> Inl e | Inr r \<Rightarrow> build_result u t r)
   \<and> (fst (analyze_repository (RepositoryAnalyzer_init (Some p)) env w u t) = Inr res \<longrightarrow>
        result_field (Inr res) ''threshold'' = Some (PFloat t))"
proof (intro conjI impI)
  show "fst (analyze_repository (RepositoryAnalyzer_init (None :: 'w environment)) env w u t)
      = Inr (fallback_result u t)"
    by (rule analyze_repository_unavailable)
next
  show "result_field (fst (analyze_repository (RepositoryAnalyzer_init (None :: 'w environment))
        env w u t)) ''threshold'' = Some (PFloat t)"
    by (simp add: analyze_repository_unavailable fallback_result_def result_field_def)
next
  show "fst (analyze_repository (RepositoryAnalyzer_init (Some p)) env w u t) =
       (case run_engine env w u t of Inl e \<Rightarrow> Inl e | Inr r \<Rightarrow> build_result u t r)"
    by (rule analyze_repository_available)
next
  assume "fst (analyze_repository (RepositoryAnalyzer_init (Some p)) env w u t) = Inr res"
  from analyze_available_Inr [OF this]
  obtain r where r: "build_result u t r = Inr res"
    by blast
  from build_result_Inr [OF r]
  show "result_field (Inr res) ''threshold'' = Some (PFloat t)"
    by (auto simp: result_field_def)
qed

text \<open>The engine path at the threshold -1, outside the range: a result that echoes -1.\<close>

theorem threshold_not_checked_witness:
  "\<not> (0 < (- 1 :: real) \<and> (- 1 :: real) \<le> 1)
   \<and> result_field (fst (analyze_repository (RepositoryAnalyzer_init (Some (sample_package :: unit package)))
      (Some sample_package) () ''https://github.com/facebook/react'' (- 1))) ''threshold''
     = Some (PFloat (- 1))"
  using threshold_not_checked [where p = "sample_package :: unit package"
          and env = "Some sample_package" and w = "()" and u = "''https://github.com/facebook/react''"
          and t = "- 1", THEN conjunct2, THEN conjunct2, THEN conjunct2, rule_format,
          OF analyze_sample]
  by (simp add: analyze_sample)

text \<open>
  Claim C7 as stated fails: the thresholds 0, -1 and 2 are outside (0, 1], and each call
  returns an analysis result instead of an error.
\<close>

theorem threshold_rejected_counterexample:
  "\<not> (0 < (0 :: real) \<and> (0 :: real) \<le> 1)
   \<and> fst (analyze_repository (RepositoryAnalyzer_init (None :: unit environment)) None ()
        ''https://github.com/microsoft/vscode'' 0)
     = Inr (PDict [(''repository'', PStr ''https://github.com/microsoft/vscode''),
                 (''classification'', PStr ''DEMO_HEALTHY''),
                 (''M_score'', PFloat 0.75),
                 (''threshold'', PFloat 0),
                 (''metrics'', PDict [(''H'', PFloat 0.8), (''V'', PFloat 0.7),
                                      (''C'', PFloat 0.6), (''A'', PFloat 0.2)]),
                 (''recommendations'',
                    PList [PStr ''Install repo-intelligence-core for full analysis'']),
                 (''demo'', PBool False),
                 (''demo_mode'', PBool True)])
   \<and> \<not> (0 < (- 1 :: real) \<and> (- 1 :: real) \<le> 1)
   \<and> result_field (fst (analyze_repository (RepositoryAnalyzer_init (None :: unit environment)) None ()
        ''https://github.com/microsoft/vscode'' (- 1))) ''threshold'' = Some (PFloat (- 1))
   \<and> \<not> (0 < (2 :: real) \<and> (2 :: real) \<le> 1)
   \<and> result_field (fst (analyze_repository (RepositoryAnalyzer_init (None :: unit environment)) None ()
        ''https://github.com/microsoft/vscode'' 2)) ''threshold'' = Some (PFloat 2)"
  by (simp add: analyze_repository_unavailable fallback_result_def result_field_def)

section \<open>Recommendations\<close>

text \<open>
  Claim C8, as amended. The analyzer does not derive recommendations from the metrics.
  Without the engine the list is always the single advice to install the full package,
  although the four fixed metrics are within their bands. With the engine the list is the
  value the engine returned under \<open>recommendations\<close>, or the empty list when the engine
  returned none.
\<close>

theorem recommendations_not_from_bands:
  "result_field (fst (analyze_repository (RepositoryAnalyzer_init (None :: 'w environment))
        (env :: 'w environment) w u t)) ''recommendations''
     = Some (PList [PStr ''Install repo-intelligence-core for full analysis''])
   \<and> (fst (analyze_repository (RepositoryAnalyzer_init (Some (p :: 'w package))) env w u t) = Inr res \<longrightarrow>
        result_field (Inr res) ''recommendations'' = Some (engine_recommendations env w u t))"
proof (intro conjI impI)
  show "result_field (fst (analyze_repository (RepositoryAnalyzer_init (None :: 'w environment))
        env w u t)) ''recommendations''
     = Some (PList [PStr ''Install repo-intelligence-core for full analysis''])"
    by (simp add: analyze_repository_unavailable fallback_result_def result_field_def)
next
  assume "fst (analyze_repository (RepositoryAnalyzer_init (Some p)) env w u t) = Inr res"
  from analyze_available_Inr [OF this]
  obtain r where r: "run_engine env w u t = Inr r" "build_result u t r = Inr res"
    by blast
  from build_result_Inr [OF r(2)] r(1)
  show "result_field (Inr res) ''recommendations'' = Some (engine_recommendations env w u t)"
    by (auto simp: result_field_def engine_recommendations_def)
qed

text \<open>The engine path on the sample engine: the list returned is the engine's list.\<close>

theorem recommendations_not_from_bands_witness:
  "result_field (fst (analyze_repository (RepositoryAnalyzer_init (Some (sample_package :: unit package)))
      (Some sample_package) () ''https://github.com/google/go'' 0.7)) ''recommendations''
     = Some (PList [PStr ''Consider increasing PR review coverage'',
                    PStr ''Monitor for long-lived feature branches''])
   \<and> engine_recommendations (Some (sample_package :: unit package)) () ''https://github.com/google/go'' 0.7
     = PList [PStr ''Consider increasing PR review coverage'',
              PStr ''Monitor for long-lived feature branches'']"
  using recommendations_not_from_bands [where p = "sample_package :: unit package"
          and env = "Some sample_package" and w = "()" and u = "''https://github.com/google/go''"
          and t = "0.7"]
  by (simp add: analyze_sample engine_recommendations_sample result_field_def)

text \<open>
  Claim C8 as stated fails without the engine: H = 0.8, V = 0.7, C = 0.6 and A = 0.2 are
  within the bands H \<ge> 0.6, V \<ge> 0.5, C \<ge> 0.5, A \<le> 0.3, and the list of
  recommendations has one element.
\<close>

theorem recommendations_in_band_counterexample:
  "result_field (fst (analyze_repository (RepositoryAnalyzer_init (None :: unit environment)) None ()
       ''https://github.com/rust-lang/rust'' 0.7)) ''metrics''
     = Some (PDict [(''H'', PFloat 0.8), (''V'', PFloat 0.7), (''C'', PFloat 0.6), (''A'', PFloat 0.2)])
   \<and> (0.6 :: real) \<le> 0.8 \<and> (0.5 :: real) \<le> 0.7 \<and> (0.5 :: real) \<le> 0.6 \<and> (0.2 :: real) \<le> 0.3
   \<and> result_field (fst (analyze_repository (RepositoryAnalyzer_init (None :: unit environment)) None ()
       ''https://github.com/rust-lang/rust'' 0.7)) ''recommendations''
     = Some (PList [PStr ''Install repo-intelligence-core for full analysis''])
   \<and> PList [PStr ''Install repo-intelligence-core for full analysis''] \<noteq> PList []"
  by (simp add: analyze_repository_unavailable fallback_result_def result_field_def)

section \<open>The analyzer keeps no state\<close>

text \<open>
  Claim C9. Neither \<open>analyze_repository\<close> nor \<open>get_engine_info\<close> changes the analyzer:
  after one call of either, and after any sequence of calls, the analyzer is the one before,
  and reading \<open>demo_available\<close> gives what it gave before. This holds when a call raises, too.
\<close>

theorem analyzer_unchanged_by_calls:
  "snd (analyze_repository self env w u t) = self
   \<and> snd (get_engine_info self) = self
   \<and> snd (run_calls self cs) = self
   \<and> getattr (snd (run_calls self cs)) ''demo_available'' = getattr self ''demo_available''"
  by (simp add: analyze_repository_state get_engine_info_state run_calls_state)

section \<open>The attribute that is never assigned\<close>

text \<open>
  Claim C10. The constructor assigns \<open>demo_available\<close> only, and no call assigns anything,
  so reading \<open>proprietary_available\<close> on an analyzer raises AttributeError: on a fresh
  analyzer, after any sequence of calls, in \<open>health_check\<close> of the API, and in the command
  \<open>analyze\<close> of the command line, which therefore ends in its handler with exit status 1
  before it analyzes anything.
\<close>

theorem proprietary_available_raises:
  "getattr (RepositoryAnalyzer_init env) ''proprietary_available'' =
     Inl (AttributeError ''proprietary_available'')
   \<and> getattr (snd (run_calls (RepositoryAnalyzer_init env) cs)) ''proprietary_available'' =
     Inl (AttributeError ''proprietary_available'')
   \<and> health_check env = Inl (AttributeError ''proprietary_available'')
   \<and> analyze_command env w u t = Inl (AttributeError ''proprietary_available'')
   \<and> analyze_command_exit (analyze_command env w u t) = Some 1"
proof -
  have fresh: "getattr (RepositoryAnalyzer_init env) ''proprietary_available'' =
      Inl (AttributeError ''proprietary_available'')"
    by (rule getattr_init_proprietary_available)
  have info: "get_engine_info (RepositoryAnalyzer_init env) =
      (fst (get_engine_info (RepositoryAnalyzer_init env)), RepositoryAnalyzer_init env)"
    using get_engine_info_state [of "RepositoryAnalyzer_init env"]
    by (metis prod.collapse)
  have info_ok: "\<exists>v. fst (get_engine_info (RepositoryAnalyzer_init env)) = Inr v"
    by (simp add: get_engine_info_def getattr_init_demo_available)
  have cmd: "analyze_command env w u t = Inl (AttributeError ''proprietary_available'')"
  proof -
    from info_ok obtain v where v: "fst (get_engine_info (RepositoryAnalyzer_init env)) = Inr v"
      by blast
    with info have "get_engine_info (RepositoryAnalyzer_init env) = (Inr v, RepositoryAnalyzer_init env)"
      by simp
    then show ?thesis
      by (simp add: analyze_command_def fresh)
  qed
  show ?thesis
    by (simp add: fresh run_calls_state health_check_def cmd analyze_command_exit_def)
qed

end
